theory Spec2Isabelle
  imports Main "HOL-Library.Word"
begin

section \<open>HD wallet manager: data model\<close>

text \<open>
  The embedding follows \<^verbatim>\<open>4-WebBasedWallet/webBasedWallet/src/App.tsx\<close>.
  The React component \<^verbatim>\<open>HDWalletManager\<close> keeps its state in \<^verbatim>\<open>useState\<close>
  cells; every handler is modelled as a function from the state before the event to the
  state after it (one event is handled completely, and the component re-rendered, before
  the next one arrives, so a handler's closure sees the current state).

  JavaScript strings are modelled as \<^typ>\<open>string\<close>, one \<^typ>\<open>char\<close> per code unit
  below 256; array lengths and positions are \<^typ>\<open>nat\<close>.
\<close>

record WalletData =
  address :: string
  privateKey :: string
  derivationPath :: string
  index :: nat

record WalletState =
  solana :: "WalletData list"
  ethereum :: "WalletData list"

datatype chain = Solana | Ethereum

record HDWalletManager_state =
  mnemonic :: string
  customMnemonic :: string
  wallets :: WalletState
  showMnemonic :: bool
  error :: string
  isGenerating :: bool

text \<open>The initial values of the \<^verbatim>\<open>useState\<close> cells.\<close>

definition initial_state :: HDWalletManager_state where
  "initial_state =
     \<lparr>mnemonic = [], customMnemonic = [],
      wallets = \<lparr>solana = [], ethereum = []\<rparr>,
      showMnemonic = False, error = [], isGenerating = False\<rparr>"

subsection \<open>Library calls\<close>

text \<open>
  The packages \<^verbatim>\<open>bip39\<close>, \<^verbatim>\<open>ed25519-hd-key\<close>, \<^verbatim>\<open>tweetnacl\<close>,
  \<^verbatim>\<open>@solana/web3.js\<close> and \<^verbatim>\<open>@ethersproject\<close> are not part of the repository.
  Each call the component makes is a field of the record below. A call that may throw
  returns \<open>Inl msg\<close> (the thrown error's \<^verbatim>\<open>message\<close>, empty when it has none) or
  \<open>Inr\<close> of its result. The type \<open>'n\<close> is the library's HD node.
\<close>

type_synonym bytes = "8 word list"

record 'n externals =
  bip39_validateMnemonic :: "string \<Rightarrow> bool"
  bip39_mnemonicToSeedSync :: "string \<Rightarrow> string + bytes"
  ed25519_derivePath :: "string \<Rightarrow> string \<Rightarrow> string + bytes"
  nacl_sign_keyPair_fromSeed :: "bytes \<Rightarrow> string + bytes"
  Keypair_fromSecretKey :: "bytes \<Rightarrow> string + bytes"
  toBase58 :: "bytes \<Rightarrow> string"
  HDNode_fromSeed :: "bytes \<Rightarrow> string + 'n"
  HDNode_derivePath :: "'n \<Rightarrow> string \<Rightarrow> string + 'n"
  HDNode_privateKey :: "'n \<Rightarrow> string"
  Wallet_address :: "string \<Rightarrow> string + string"

text \<open>Sequencing of calls inside a \<^verbatim>\<open>try\<close> block: the first throw ends the block.\<close>

definition then_do :: "string + 'a \<Rightarrow> ('a \<Rightarrow> string + 'b) \<Rightarrow> string + 'b" where
  "then_do r f = (case r of Inl msg \<Rightarrow> Inl msg | Inr v \<Rightarrow> f v)"

subsection \<open>JavaScript built-ins used by the component\<close>

text \<open>\<^verbatim>\<open>String.prototype.trim\<close>: white space and line terminators below code unit 256.\<close>

definition is_white_space :: "char \<Rightarrow> bool" where
  "is_white_space c =
     (c \<in> set [CHR 0x09, CHR 0x0A, CHR 0x0B, CHR 0x0C, CHR 0x0D, CHR 0x20, CHR 0xA0])"

definition trim :: "string \<Rightarrow> string" where
  "trim s = rev (dropWhile is_white_space (rev (dropWhile is_white_space s)))"

text \<open>The decimal rendering of an array length inside a template literal.\<close>

fun show_nat :: "nat \<Rightarrow> string" where
  "show_nat n =
     (if n < 10 then [''0123456789'' ! n]
      else show_nat (n div 10) @ [''0123456789'' ! (n mod 10)])"

declare show_nat.simps [simp del]

text \<open>\<^verbatim>\<open>Buffer.prototype.toString('hex')\<close>: two lower-case digits per byte.\<close>

definition toString_hex :: "bytes \<Rightarrow> string" where
  "toString_hex bs =
     concat (map (\<lambda>b. [''0123456789abcdef'' ! (unat b div 16),
                        ''0123456789abcdef'' ! (unat b mod 16)]) bs)"

text \<open>
  \<^verbatim>\<open>Array.prototype.filter\<close> with a callback that receives the element and its
  position.
\<close>

definition filter_with_index :: "('a \<Rightarrow> nat \<Rightarrow> bool) \<Rightarrow> 'a list \<Rightarrow> 'a list" where
  "filter_with_index p xs =
     map fst (filter (\<lambda>(x, i). p x i) (zip xs [0..<length xs]))"

text \<open>\<^verbatim>\<open>err.message || 'Unknown error'\<close>.\<close>

definition message_or_unknown :: "string \<Rightarrow> string" where
  "message_or_unknown msg = (if msg = [] then ''Unknown error'' else msg)"

section \<open>The component's constants and handlers\<close>

definition apostrophe :: char where
  "apostrophe = CHR 0x27"

definition DERIVATION_PATHS_SOLANA :: string where
  "DERIVATION_PATHS_SOLANA = ''m/44'/501'' @ [apostrophe]"

definition DERIVATION_PATHS_ETHEREUM :: string where
  "DERIVATION_PATHS_ETHEREUM = ''m/44'/60'' @ [apostrophe]"

definition empty_wallets :: WalletState where
  "empty_wallets = \<lparr>solana = [], ethereum = []\<rparr>"

text \<open>
  \<^verbatim>\<open>generateNewMnemonic\<close> runs in two parts: the click handler, and the callback that
  \<^verbatim>\<open>setTimeout\<close> runs 100 ms later. The phrase \<^verbatim>\<open>bip39.generateMnemonic()\<close> draws
  is random, so the outcome of that call is an argument of the callback.
\<close>

definition generateNewMnemonic_click :: "HDWalletManager_state \<Rightarrow> HDWalletManager_state" where
  "generateNewMnemonic_click s = s\<lparr>isGenerating := True, error := []\<rparr>"

definition generateNewMnemonic_callback ::
    "string + string \<Rightarrow> HDWalletManager_state \<Rightarrow> HDWalletManager_state" where
  "generateNewMnemonic_callback generated s =
     (case generated of
        Inr newMnemonic \<Rightarrow>
          s\<lparr>mnemonic := newMnemonic, customMnemonic := newMnemonic,
            wallets := empty_wallets, isGenerating := False\<rparr>
      | Inl msg \<Rightarrow>
          s\<lparr>error := ''Failed to generate mnemonic: '' @ message_or_unknown msg,
            isGenerating := False\<rparr>)"

definition importMnemonic ::
    "'n externals \<Rightarrow> HDWalletManager_state \<Rightarrow> HDWalletManager_state" where
  "importMnemonic ext s =
     (let trimmedMnemonic = trim (customMnemonic s) in
      if trimmedMnemonic = [] then s\<lparr>error := ''Please enter a mnemonic phrase''\<rparr>
      else if \<not> bip39_validateMnemonic ext trimmedMnemonic
        then s\<lparr>error := ''Invalid mnemonic phrase. Please check and try again.''\<rparr>
      else s\<lparr>error := [], mnemonic := trimmedMnemonic, wallets := empty_wallets\<rparr>)"

text \<open>\<^verbatim>\<open>generateSolanaWallet\<close>: the path built from \<^verbatim>\<open>currentIndex\<close>.\<close>

definition solana_derivationPath :: "nat \<Rightarrow> string" where
  "solana_derivationPath currentIndex =
     DERIVATION_PATHS_SOLANA @ ''/'' @ show_nat currentIndex @ [apostrophe] @ ''/0'' @ [apostrophe]"

text \<open>
  The library calls between \<^verbatim>\<open>derivationPath\<close> and \<^verbatim>\<open>newWallet\<close>: they give
  the address and the private key for a mnemonic and a path.
\<close>

definition solana_keys :: "'n externals \<Rightarrow> string \<Rightarrow> string \<Rightarrow> string + (string \<times> string)" where
  "solana_keys ext mn path =
     then_do (bip39_mnemonicToSeedSync ext mn) (\<lambda>seed.
     then_do (ed25519_derivePath ext path (toString_hex seed)) (\<lambda>derivedSeed.
     then_do (nacl_sign_keyPair_fromSeed ext derivedSeed) (\<lambda>secretKey.
     then_do (Keypair_fromSecretKey ext secretKey) (\<lambda>publicKey.
       Inr (toBase58 ext publicKey, toString_hex secretKey)))))"

definition solana_newWallet :: "'n externals \<Rightarrow> string \<Rightarrow> nat \<Rightarrow> string + WalletData" where
  "solana_newWallet ext mn currentIndex =
     then_do (solana_keys ext mn (solana_derivationPath currentIndex)) (\<lambda>(a, k).
       Inr \<lparr>address = a, privateKey = k,
            derivationPath = solana_derivationPath currentIndex,
            index = currentIndex\<rparr>)"

definition generateSolanaWallet ::
    "'n externals \<Rightarrow> HDWalletManager_state \<Rightarrow> HDWalletManager_state" where
  "generateSolanaWallet ext s =
     (if mnemonic s = [] then s
      else
        (case solana_newWallet ext (mnemonic s) (length (solana (wallets s))) of
           Inr newWallet \<Rightarrow>
             s\<lparr>wallets := (wallets s)\<lparr>solana := solana (wallets s) @ [newWallet]\<rparr>,
               error := []\<rparr>
         | Inl msg \<Rightarrow>
             s\<lparr>error := ''Failed to generate Solana wallet: '' @ message_or_unknown msg\<rparr>))"

text \<open>The same for \<^verbatim>\<open>generateEthereumWallet\<close>.\<close>

definition ethereum_derivationPath :: "nat \<Rightarrow> string" where
  "ethereum_derivationPath currentIndex =
     DERIVATION_PATHS_ETHEREUM @ ''/'' @ show_nat currentIndex"

definition ethereum_keys :: "'n externals \<Rightarrow> string \<Rightarrow> string \<Rightarrow> string + (string \<times> string)" where
  "ethereum_keys ext mn path =
     then_do (bip39_mnemonicToSeedSync ext mn) (\<lambda>seed.
     then_do (HDNode_fromSeed ext seed) (\<lambda>hdNode.
     then_do (HDNode_derivePath ext hdNode path) (\<lambda>child.
     then_do (Wallet_address ext (HDNode_privateKey ext child)) (\<lambda>wallet_address.
       Inr (wallet_address, HDNode_privateKey ext child)))))"

definition ethereum_newWallet :: "'n externals \<Rightarrow> string \<Rightarrow> nat \<Rightarrow> string + WalletData" where
  "ethereum_newWallet ext mn currentIndex =
     then_do (ethereum_keys ext mn (ethereum_derivationPath currentIndex)) (\<lambda>(a, k).
       Inr \<lparr>address = a, privateKey = k,
            derivationPath = ethereum_derivationPath currentIndex,
            index = currentIndex\<rparr>)"

definition generateEthereumWallet ::
    "'n externals \<Rightarrow> HDWalletManager_state \<Rightarrow> HDWalletManager_state" where
  "generateEthereumWallet ext s =
     (if mnemonic s = [] then s
      else
        (case ethereum_newWallet ext (mnemonic s) (length (ethereum (wallets s))) of
           Inr newWallet \<Rightarrow>
             s\<lparr>wallets := (wallets s)\<lparr>ethereum := ethereum (wallets s) @ [newWallet]\<rparr>,
               error := []\<rparr>
         | Inl msg \<Rightarrow>
             s\<lparr>error := ''Failed to generate Ethereum wallet: '' @ message_or_unknown msg\<rparr>))"

text \<open>
  \<^verbatim>\<open>removeWallet(chain, index)\<close>: the second argument is a \<^verbatim>\<open>number\<close>, compared
  with the position of each element.
\<close>

definition removeWallet ::
    "chain \<Rightarrow> nat \<Rightarrow> HDWalletManager_state \<Rightarrow> HDWalletManager_state" where
  "removeWallet c idx s =
     (case c of
        Solana \<Rightarrow>
          s\<lparr>wallets := (wallets s)
              \<lparr>solana := filter_with_index (\<lambda>_ i. i \<noteq> idx) (solana (wallets s))\<rparr>\<rparr>
      | Ethereum \<Rightarrow>
          s\<lparr>wallets := (wallets s)
              \<lparr>ethereum := filter_with_index (\<lambda>_ i. i \<noteq> idx) (ethereum (wallets s))\<rparr>\<rparr>)"

text \<open>The handler of the button "Clear seed phrase and wallets".\<close>

definition clear :: "HDWalletManager_state \<Rightarrow> HDWalletManager_state" where
  "clear s = s\<lparr>mnemonic := [], customMnemonic := [], wallets := empty_wallets\<rparr>"

subsection \<open>Sessions\<close>

text \<open>
  The events of the user interface, and the state a sequence of them leads to. Typing
  into the text area is \<open>SetCustomMnemonic\<close>; the card at position \<open>i\<close> of a
  chain's list calls \<open>removeWallet\<close> with that position. An event runs its handler
  in any state: which buttons the component renders in a state is not modelled, so the
  states reached here include all those the rendered buttons can reach.
\<close>

datatype event =
    SetCustomMnemonic string
  | GenerateNewMnemonicClick
  | GenerateNewMnemonicCallback "string + string"
  | ImportMnemonic
  | GenerateSolanaWallet
  | GenerateEthereumWallet
  | RemoveWallet chain nat
  | ToggleShowMnemonic
  | Clear

fun step :: "'n externals \<Rightarrow> HDWalletManager_state \<Rightarrow> event \<Rightarrow> HDWalletManager_state" where
  "step ext s (SetCustomMnemonic v) = s\<lparr>customMnemonic := v\<rparr>"
| "step ext s GenerateNewMnemonicClick = generateNewMnemonic_click s"
| "step ext s (GenerateNewMnemonicCallback g) = generateNewMnemonic_callback g s"
| "step ext s ImportMnemonic = importMnemonic ext s"
| "step ext s GenerateSolanaWallet = generateSolanaWallet ext s"
| "step ext s GenerateEthereumWallet = generateEthereumWallet ext s"
| "step ext s (RemoveWallet c i) = removeWallet c i s"
| "step ext s ToggleShowMnemonic = s\<lparr>showMnemonic := \<not> showMnemonic s\<rparr>"
| "step ext s Clear = clear s"

definition run :: "'n externals \<Rightarrow> event list \<Rightarrow> HDWalletManager_state \<Rightarrow> HDWalletManager_state" where
  "run ext evs s = foldl (step ext) s evs"

text \<open>\<^verbatim>\<open>prev[chain]\<close>.\<close>

definition registry :: "chain \<Rightarrow> HDWalletManager_state \<Rightarrow> WalletData list" where
  "registry c s = (case c of Solana \<Rightarrow> solana (wallets s) | Ethereum \<Rightarrow> ethereum (wallets s))"

subsection \<open>Libraries to run the component on\<close>

text \<open>
  A stand-in for the libraries, used to run the handlers on concrete inputs: it accepts
  one phrase, and its keys spell out the path they were derived at.
\<close>

definition demo_mnemonic :: string where
  "demo_mnemonic =
     ''abandon abandon abandon abandon abandon abandon abandon abandon abandon abandon abandon about''"

definition demo_externals :: "string externals" where
  "demo_externals =
     \<lparr>bip39_validateMnemonic = (\<lambda>m. m = demo_mnemonic),
      bip39_mnemonicToSeedSync = (\<lambda>m. Inr [1, 2, 3]),
      ed25519_derivePath = (\<lambda>path hexseed. Inr (map (\<lambda>c. of_nat (of_char c)) path)),
      nacl_sign_keyPair_fromSeed = (\<lambda>seed. Inr seed),
      Keypair_fromSecretKey = (\<lambda>secretKey. Inr secretKey),
      toBase58 = (\<lambda>bs. map (\<lambda>b. char_of (unat b)) bs),
      HDNode_fromSeed = (\<lambda>seed. Inr ''m''),
      HDNode_derivePath = (\<lambda>node path. Inr path),
      HDNode_privateKey = (\<lambda>node. ''0x'' @ node),
      Wallet_address = (\<lambda>pk. Inr (''addr:'' @ pk))\<rparr>"

text \<open>Importing the phrase typed into the text area.\<close>

definition import_events :: "string \<Rightarrow> event list" where
  "import_events m = [SetCustomMnemonic m, ImportMnemonic]"



text \<open>A session: the demo phrase is imported and three Solana wallets are added.\<close>

definition demo_three_solana :: "event list" where
  "demo_three_solana =
     import_events demo_mnemonic @
     [GenerateSolanaWallet, GenerateSolanaWallet, GenerateSolanaWallet]"

text \<open>
  A record was derived by \<open>keys\<close> at the path \<open>path\<close> gives to its index: its path
  field is that path, and its address and private key are what \<open>keys\<close> returns there.
\<close>

definition derived_at ::
    "(string \<Rightarrow> string + (string \<times> string)) \<Rightarrow> (nat \<Rightarrow> string) \<Rightarrow> WalletData \<Rightarrow> bool" where
  "derived_at keys path r =
     (derivationPath r = path (index r) \<and> keys (path (index r)) = Inr (address r, privateKey r))"

section \<open>Auxiliary facts\<close>

lemma filter_with_index_remove:
  "filter_with_index (\<lambda>_ i. i \<noteq> k) xs = take k xs @ drop (Suc k) xs"
proof (induction xs rule: rev_induct)
  case Nil
  show ?case by (simp add: filter_with_index_def)
next
  case (snoc x xs)
  have "zip (xs @ [x]) [0..<length (xs @ [x])] = zip xs [0..<length xs] @ [(x, length xs)]"
    by simp
  then have "filter_with_index (\<lambda>_ i. i \<noteq> k) (xs @ [x]) =
      filter_with_index (\<lambda>_ i. i \<noteq> k) xs @ (if length xs \<noteq> k then [x] else [])"
    unfolding filter_with_index_def by simp
  also have "\<dots> = take k (xs @ [x]) @ drop (Suc k) (xs @ [x])"
    unfolding snoc.IH by (cases "k < length xs") auto
  finally show ?case .
qed

lemma filter_with_index_out_of_range:
  "length xs \<le> k \<Longrightarrow> filter_with_index (\<lambda>_ i. i \<noteq> k) xs = xs"
  by (simp add: filter_with_index_remove)

lemma generateSolanaWallet_ethereum:
  "ethereum (wallets (generateSolanaWallet ext s)) = ethereum (wallets s)"
  by (simp add: generateSolanaWallet_def split: sum.split)

lemma generateSolanaWallet_mnemonic:
  "mnemonic (generateSolanaWallet ext s) = mnemonic s"
  by (simp add: generateSolanaWallet_def split: sum.split)

lemma generateEthereumWallet_solana:
  "solana (wallets (generateEthereumWallet ext s)) = solana (wallets s)"
  by (simp add: generateEthereumWallet_def split: sum.split)

lemma generateEthereumWallet_mnemonic:
  "mnemonic (generateEthereumWallet ext s) = mnemonic s"
  by (simp add: generateEthereumWallet_def split: sum.split)

lemma removeWallet_mnemonic: "mnemonic (removeWallet c i s) = mnemonic s"
  by (cases c) (simp_all add: removeWallet_def)

lemma removeWallet_Solana_ethereum:
  "ethereum (wallets (removeWallet Solana i s)) = ethereum (wallets s)"
  by (simp add: removeWallet_def)

lemma removeWallet_Ethereum_solana:
  "solana (wallets (removeWallet Ethereum i s)) = solana (wallets s)"
  by (simp add: removeWallet_def)

lemma demo_solana_keys:
  "solana_keys demo_externals mn path =
     Inr (path, toString_hex (map (\<lambda>c. of_nat (of_char c)) path))"
  by (simp add: solana_keys_def demo_externals_def then_do_def o_def unat_of_nat map_idI)

lemma demo_ethereum_keys:
  "ethereum_keys demo_externals mn path = Inr (''addr:0x'' @ path, ''0x'' @ path)"
  by (simp add: ethereum_keys_def demo_externals_def then_do_def)

lemma trim_demo_mnemonic: "trim demo_mnemonic = demo_mnemonic"
  by (simp add: trim_def demo_mnemonic_def is_white_space_def)

lemma demo_mnemonic_nonempty: "demo_mnemonic \<noteq> []"
  by (simp add: demo_mnemonic_def)

lemma demo_validate: "bip39_validateMnemonic demo_externals m = (m = demo_mnemonic)"
  by (simp add: demo_externals_def)

lemma run_Nil: "run ext [] s = s"
  by (simp add: run_def)

lemma run_Cons: "run ext (e # evs) s = run ext evs (step ext s e)"
  by (simp add: run_def)

lemma run_snoc: "run ext (evs @ [e]) s = step ext (run ext evs s) e"
  by (simp add: run_def)

lemma run_append: "run ext (evs @ evs') s = run ext evs' (run ext evs s)"
  by (simp add: run_def)

lemma importMnemonic_success:
  assumes "trim (customMnemonic s) \<noteq> []"
    and "bip39_validateMnemonic ext (trim (customMnemonic s))"
  shows "importMnemonic ext s =
    s\<lparr>error := [], mnemonic := trim (customMnemonic s), wallets := empty_wallets\<rparr>"
  using assms by (simp add: importMnemonic_def Let_def)

lemma run_import_events:
  assumes "trim M \<noteq> []" and "bip39_validateMnemonic ext (trim M)"
  shows "run ext (import_events M) s =
    s\<lparr>customMnemonic := M, error := [], mnemonic := trim M, wallets := empty_wallets\<rparr>"
  using assms by (simp add: import_events_def run_Cons run_Nil importMnemonic_success)

text \<open>The Solana list after a handler, in terms of the list before.\<close>

lemma solana_generateSolanaWallet:
  "solana (wallets (generateSolanaWallet ext s)) =
     (if mnemonic s = [] then solana (wallets s)
      else case solana_keys ext (mnemonic s) (solana_derivationPath (length (solana (wallets s)))) of
        Inl msg \<Rightarrow> solana (wallets s)
      | Inr (a, k) \<Rightarrow> solana (wallets s) @
          [\<lparr>address = a, privateKey = k,
            derivationPath = solana_derivationPath (length (solana (wallets s))),
            index = length (solana (wallets s))\<rparr>])"
  by (simp add: generateSolanaWallet_def solana_newWallet_def then_do_def split: sum.split prod.split)

lemma ethereum_generateEthereumWallet:
  "ethereum (wallets (generateEthereumWallet ext s)) =
     (if mnemonic s = [] then ethereum (wallets s)
      else case ethereum_keys ext (mnemonic s) (ethereum_derivationPath (length (ethereum (wallets s)))) of
        Inl msg \<Rightarrow> ethereum (wallets s)
      | Inr (a, k) \<Rightarrow> ethereum (wallets s) @
          [\<lparr>address = a, privateKey = k,
            derivationPath = ethereum_derivationPath (length (ethereum (wallets s))),
            index = length (ethereum (wallets s))\<rparr>])"
  by (simp add: generateEthereumWallet_def ethereum_newWallet_def then_do_def split: sum.split prod.split)

lemma solana_removeWallet:
  "solana (wallets (removeWallet Solana i s)) =
     take i (solana (wallets s)) @ drop (Suc i) (solana (wallets s))"
  by (simp add: removeWallet_def filter_with_index_remove)

lemma ethereum_removeWallet:
  "ethereum (wallets (removeWallet Ethereum i s)) =
     take i (ethereum (wallets s)) @ drop (Suc i) (ethereum (wallets s))"
  by (simp add: removeWallet_def filter_with_index_remove)

lemma after_import:
  assumes "trim M \<noteq> []" and "bip39_validateMnemonic ext (trim M)"
  shows "mnemonic (run ext (import_events M) s) = trim M"
    and "solana (wallets (run ext (import_events M) s)) = []"
    and "ethereum (wallets (run ext (import_events M) s)) = []"
  using assms by (simp_all add: run_import_events empty_wallets_def)

lemma solana_derivationPath_0: "solana_derivationPath 0 = ''m/44'/501'/0'/0'' @ [apostrophe]"
  by (simp add: solana_derivationPath_def DERIVATION_PATHS_SOLANA_def show_nat.simps apostrophe_def)

lemma solana_derivationPath_1: "solana_derivationPath 1 = ''m/44'/501'/1'/0'' @ [apostrophe]"
  by (simp add: solana_derivationPath_def DERIVATION_PATHS_SOLANA_def show_nat.simps apostrophe_def)

lemma solana_derivationPath_2: "solana_derivationPath 2 = ''m/44'/501'/2'/0'' @ [apostrophe]"
  by (simp add: solana_derivationPath_def DERIVATION_PATHS_SOLANA_def show_nat.simps apostrophe_def)

lemma ethereum_derivationPath_0: "ethereum_derivationPath 0 = ''m/44'/60'/0''"
  by (simp add: ethereum_derivationPath_def DERIVATION_PATHS_ETHEREUM_def show_nat.simps apostrophe_def)


lemma generateSolanaWallet_customMnemonic:
  "customMnemonic (generateSolanaWallet ext s) = customMnemonic s"
  by (simp add: generateSolanaWallet_def split: sum.split)

lemma generateEthereumWallet_customMnemonic:
  "customMnemonic (generateEthereumWallet ext s) = customMnemonic s"
  by (simp add: generateEthereumWallet_def split: sum.split)

lemma removeWallet_customMnemonic: "customMnemonic (removeWallet c i s) = customMnemonic s"
  by (cases c) (simp_all add: removeWallet_def)

lemmas session_simps =
  run_def import_events_def importMnemonic_def Let_def empty_wallets_def
  solana_generateSolanaWallet ethereum_generateEthereumWallet
  solana_removeWallet ethereum_removeWallet
  generateSolanaWallet_mnemonic generateEthereumWallet_mnemonic removeWallet_mnemonic
  generateSolanaWallet_customMnemonic generateEthereumWallet_customMnemonic
  removeWallet_customMnemonic
  generateSolanaWallet_ethereum generateEthereumWallet_solana
  removeWallet_Solana_ethereum removeWallet_Ethereum_solana

lemma solana_remove_then_derive:
  assumes "trim M \<noteq> []" and "bip39_validateMnemonic ext (trim M)"
    and k0: "solana_keys ext (trim M) (solana_derivationPath 0) = Inr (a0, k0)"
    and k1: "solana_keys ext (trim M) (solana_derivationPath 1) = Inr (a1, k1)"
    and k2: "solana_keys ext (trim M) (solana_derivationPath 2) = Inr (a2, k2)"
  shows "solana (wallets (run ext (import_events M @
            [GenerateSolanaWallet, GenerateSolanaWallet, GenerateSolanaWallet,
             RemoveWallet Solana 1, GenerateSolanaWallet]) s0)) =
      [\<lparr>address = a0, privateKey = k0, derivationPath = solana_derivationPath 0, index = 0\<rparr>,
       \<lparr>address = a2, privateKey = k2, derivationPath = solana_derivationPath 2, index = 2\<rparr>,
       \<lparr>address = a2, privateKey = k2, derivationPath = solana_derivationPath 2, index = 2\<rparr>]"
  using assms by (simp add: session_simps numeral_2_eq_2)


section \<open>Frame of the per-chain operations\<close>

text \<open>
  Claim C10. Deriving or removing a Solana wallet leaves the Ethereum list and the
  current mnemonic as they were, and deriving or removing an Ethereum wallet leaves the
  Solana list and the current mnemonic as they were.
\<close>

theorem per_chain_frame:
  "ethereum (wallets (generateSolanaWallet ext s)) = ethereum (wallets s)
   \<and> mnemonic (generateSolanaWallet ext s) = mnemonic s
   \<and> ethereum (wallets (removeWallet Solana i s)) = ethereum (wallets s)
   \<and> mnemonic (removeWallet Solana i s) = mnemonic s
   \<and> solana (wallets (generateEthereumWallet ext s)) = solana (wallets s)
   \<and> mnemonic (generateEthereumWallet ext s) = mnemonic s
   \<and> solana (wallets (removeWallet Ethereum i s)) = solana (wallets s)
   \<and> mnemonic (removeWallet Ethereum i s) = mnemonic s"
  by (simp only: generateSolanaWallet_ethereum generateSolanaWallet_mnemonic
      generateEthereumWallet_solana generateEthereumWallet_mnemonic removeWallet_mnemonic
      removeWallet_Solana_ethereum removeWallet_Ethereum_solana simp_thms)

theorem per_chain_frame_witness:
  "ethereum (wallets (generateSolanaWallet demo_externals initial_state)) = []
   \<and> mnemonic (removeWallet Solana 0 initial_state) = []
   \<and> solana (wallets (generateEthereumWallet demo_externals initial_state)) = []
   \<and> solana (wallets (removeWallet Ethereum 0 initial_state)) = []"
  using per_chain_frame [of demo_externals initial_state 0]
  by (simp add: initial_state_def)

section \<open>Deriving without a mnemonic\<close>

text \<open>
  Claim C3, as amended. When no mnemonic is set (the cell holds the empty string), both
  \<^verbatim>\<open>generateSolanaWallet\<close> and \<^verbatim>\<open>generateEthereumWallet\<close> return at their first
  line: the whole state, the error message included, is what it was, so nothing is
  reported.
\<close>

theorem no_mnemonic_is_silent_no_op:
  "mnemonic s = [] \<Longrightarrow> generateSolanaWallet ext s = s \<and> generateEthereumWallet ext s = s"
  by (simp add: generateSolanaWallet_def generateEthereumWallet_def)

theorem no_mnemonic_is_silent_no_op_witness:
  "mnemonic initial_state = []
   \<and> generateSolanaWallet demo_externals initial_state = initial_state
   \<and> generateEthereumWallet demo_externals initial_state = initial_state"
  using no_mnemonic_is_silent_no_op [of initial_state demo_externals]
  by (simp add: initial_state_def)

text \<open>
  The claim as stated asks for an error reported to the caller. In the initial state no
  mnemonic is set and the error message is empty; it is still empty after either handler
  ran, and a handler has no other result.
\<close>

theorem no_mnemonic_error_not_reported:
  "mnemonic initial_state = []
   \<and> error (generateSolanaWallet demo_externals initial_state) = []
   \<and> error (generateEthereumWallet demo_externals initial_state) = []"
  by (simp add: generateSolanaWallet_def generateEthereumWallet_def initial_state_def)

section \<open>Importing a mnemonic\<close>

text \<open>
  Claim C7. When the trimmed candidate is empty or the validation of the library
  rejects it, \<^verbatim>\<open>importMnemonic\<close> sets a non-empty error message and changes nothing
  else: the current mnemonic and both wallet lists are those of the state before.
\<close>

theorem import_invalid_reports_and_preserves:
  assumes "trim (customMnemonic s) = []
    \<or> \<not> bip39_validateMnemonic ext (trim (customMnemonic s))"
  shows "error (importMnemonic ext s) \<noteq> []
    \<and> mnemonic (importMnemonic ext s) = mnemonic s
    \<and> wallets (importMnemonic ext s) = wallets s
    \<and> importMnemonic ext s = s\<lparr>error := error (importMnemonic ext s)\<rparr>"
  using assms by (auto simp add: importMnemonic_def Let_def)

theorem import_invalid_reports_and_preserves_witness:
  "\<not> bip39_validateMnemonic demo_externals
       (trim (customMnemonic (initial_state\<lparr>customMnemonic := ''not a real phrase''\<rparr>)))
   \<and> error (importMnemonic demo_externals
         (initial_state\<lparr>customMnemonic := ''not a real phrase''\<rparr>)) \<noteq> []
   \<and> mnemonic (importMnemonic demo_externals
         (initial_state\<lparr>customMnemonic := ''not a real phrase''\<rparr>)) = []"
proof -
  have invalid: "\<not> bip39_validateMnemonic demo_externals
      (trim (customMnemonic (initial_state\<lparr>customMnemonic := ''not a real phrase''\<rparr>)))"
    by (simp add: demo_validate demo_mnemonic_def trim_def is_white_space_def)
  show ?thesis
    using invalid
      import_invalid_reports_and_preserves
        [of "initial_state\<lparr>customMnemonic := ''not a real phrase''\<rparr>" demo_externals]
    by (simp add: initial_state_def)
qed

text \<open>
  Claim C9. A successful import, and a successful generation (the callback receives a
  phrase from the library), both leave the Solana list and the Ethereum list empty,
  whatever they held before.
\<close>

theorem new_mnemonic_resets_registries:
  assumes "trim (customMnemonic s) \<noteq> []"
    and "bip39_validateMnemonic ext (trim (customMnemonic s))"
  shows "wallets (importMnemonic ext s) = \<lparr>solana = [], ethereum = []\<rparr>
    \<and> wallets (generateNewMnemonic_callback (Inr newMnemonic) s') =
        \<lparr>solana = [], ethereum = []\<rparr>"
  using assms
  by (simp add: importMnemonic_def Let_def generateNewMnemonic_callback_def empty_wallets_def)

theorem new_mnemonic_resets_registries_witness:
  "trim (customMnemonic (run demo_externals demo_three_solana initial_state)) \<noteq> []
   \<and> bip39_validateMnemonic demo_externals
        (trim (customMnemonic (run demo_externals demo_three_solana initial_state)))
   \<and> length (solana (wallets (run demo_externals demo_three_solana initial_state))) = 3
   \<and> wallets (importMnemonic demo_externals (run demo_externals demo_three_solana initial_state))
       = \<lparr>solana = [], ethereum = []\<rparr>
   \<and> wallets (generateNewMnemonic_callback (Inr demo_mnemonic)
        (run demo_externals demo_three_solana initial_state))
       = \<lparr>solana = [], ethereum = []\<rparr>"
proof -
  have cm: "customMnemonic (run demo_externals demo_three_solana initial_state) = demo_mnemonic"
    by (simp add: session_simps demo_three_solana_def trim_demo_mnemonic demo_validate
        demo_mnemonic_nonempty)
  have len: "length (solana (wallets (run demo_externals demo_three_solana initial_state))) = 3"
    by (simp add: session_simps demo_three_solana_def trim_demo_mnemonic demo_validate
        demo_mnemonic_nonempty demo_solana_keys)
  have nonempty: "trim (customMnemonic (run demo_externals demo_three_solana initial_state)) \<noteq> []"
    by (simp add: cm trim_demo_mnemonic demo_mnemonic_nonempty)
  have valid: "bip39_validateMnemonic demo_externals
      (trim (customMnemonic (run demo_externals demo_three_solana initial_state)))"
    by (simp add: cm trim_demo_mnemonic demo_validate)
  show ?thesis
    using nonempty valid len
      new_mnemonic_resets_registries [OF nonempty valid, of demo_mnemonic
        "run demo_externals demo_three_solana initial_state"]
    by simp
qed

section \<open>Determinism of derivation\<close>

text \<open>
  Claim C6. Let \<open>M\<close> be a phrase whose trimmed form the library accepts. Importing \<open>M\<close>
  and adding a Solana wallet, then clearing, importing \<open>M\<close> again and adding a Solana
  wallet gives the same Solana list as the first run did; when the library calls succeed
  that list is the single record with index 0, path \<open>solana_derivationPath 0\<close>, and the
  address and key the library returns for the trimmed phrase and that path. The library
  calls are functions of their arguments here: the claim's "no randomness" is what the
  component adds to that, namely that nothing but the mnemonic and the index enters.
\<close>

theorem solana_derivation_deterministic:
  assumes "trim M \<noteq> []" and "bip39_validateMnemonic ext (trim M)"
  shows "solana (wallets (run ext (import_events M @ [GenerateSolanaWallet, Clear]
              @ import_events M @ [GenerateSolanaWallet]) s0))
         = solana (wallets (run ext (import_events M @ [GenerateSolanaWallet]) s0))
     \<and> (\<forall>a k. solana_keys ext (trim M) (solana_derivationPath 0) = Inr (a, k) \<longrightarrow>
          solana (wallets (run ext (import_events M @ [GenerateSolanaWallet]) s0)) =
            [\<lparr>address = a, privateKey = k, derivationPath = solana_derivationPath 0, index = 0\<rparr>])"
proof -
  have first: "solana (wallets (run ext (import_events M @ [GenerateSolanaWallet]) s)) =
      (case solana_keys ext (trim M) (solana_derivationPath 0) of
         Inl msg \<Rightarrow> []
       | Inr (a, k) \<Rightarrow>
           [\<lparr>address = a, privateKey = k, derivationPath = solana_derivationPath 0, index = 0\<rparr>])"
    for s
    using assms
    by (simp add: run_append run_Cons run_Nil solana_generateSolanaWallet after_import
        split: sum.split prod.split)
  have "run ext (import_events M @ [GenerateSolanaWallet, Clear]
              @ import_events M @ [GenerateSolanaWallet]) s0 =
        run ext (import_events M @ [GenerateSolanaWallet])
          (run ext (import_events M @ [GenerateSolanaWallet, Clear]) s0)"
    by (simp add: run_def)
  then show ?thesis
    by (simp add: first split: sum.split prod.split)
qed


theorem solana_derivation_deterministic_witness:
  "trim demo_mnemonic \<noteq> []
   \<and> bip39_validateMnemonic demo_externals (trim demo_mnemonic)
   \<and> map address (solana (wallets (run demo_externals
          (import_events demo_mnemonic @ [GenerateSolanaWallet, Clear]
            @ import_events demo_mnemonic @ [GenerateSolanaWallet]) initial_state)))
       = [solana_derivationPath 0]
   \<and> map address (solana (wallets (run demo_externals
          (import_events demo_mnemonic @ [GenerateSolanaWallet]) initial_state)))
       = [solana_derivationPath 0]"
proof -
  have nonempty: "trim demo_mnemonic \<noteq> []"
    by (simp add: trim_demo_mnemonic demo_mnemonic_nonempty)
  have valid: "bip39_validateMnemonic demo_externals (trim demo_mnemonic)"
    by (simp add: trim_demo_mnemonic demo_validate)
  show ?thesis
    using nonempty valid
      solana_derivation_deterministic [OF nonempty valid, of initial_state]
    by (simp add: demo_solana_keys)
qed

section \<open>The first two wallets of a chain\<close>








section \<open>The form of derivation paths\<close>

text \<open>
  Every record of a list was derived under the mnemonic the state holds, at the path of
  its own index field: a handler that replaces the mnemonic empties both lists.
\<close>

lemma derived_at_new:
  assumes "keys (path n) = Inr (a, k)"
  shows "derived_at keys path \<lparr>address = a, privateKey = k, derivationPath = path n, index = n\<rparr>"
  using assms by (simp add: derived_at_def)

lemma solana_paths_step:
  assumes "\<forall>r\<in>set (solana (wallets s)).
      derived_at (solana_keys ext (mnemonic s)) solana_derivationPath r"
  shows "\<forall>r\<in>set (solana (wallets (step ext s e))).
      derived_at (solana_keys ext (mnemonic (step ext s e))) solana_derivationPath r"
proof (cases e)
  case (GenerateNewMnemonicCallback g)
  with assms show ?thesis
    by (cases g) (simp_all add: generateNewMnemonic_callback_def empty_wallets_def)
next
  case ImportMnemonic
  with assms show ?thesis
    by (simp add: importMnemonic_def Let_def empty_wallets_def)
next
  case GenerateSolanaWallet
  with assms show ?thesis
    by (auto simp add: solana_generateSolanaWallet generateSolanaWallet_mnemonic
        derived_at_new split: sum.split)
next
  case GenerateEthereumWallet
  with assms show ?thesis
    by (simp add: generateEthereumWallet_solana generateEthereumWallet_mnemonic)
next
  case (RemoveWallet c i)
  with assms show ?thesis
    by (cases c) (auto simp add: solana_removeWallet removeWallet_Ethereum_solana
        removeWallet_mnemonic dest: in_set_takeD in_set_dropD)
next
  case Clear
  with assms show ?thesis
    by (simp add: clear_def empty_wallets_def)
qed (use assms in \<open>simp_all add: generateNewMnemonic_click_def\<close>)

lemma ethereum_paths_step:
  assumes "\<forall>r\<in>set (ethereum (wallets s)).
      derived_at (ethereum_keys ext (mnemonic s)) ethereum_derivationPath r"
  shows "\<forall>r\<in>set (ethereum (wallets (step ext s e))).
      derived_at (ethereum_keys ext (mnemonic (step ext s e))) ethereum_derivationPath r"
proof (cases e)
  case (GenerateNewMnemonicCallback g)
  with assms show ?thesis
    by (cases g) (simp_all add: generateNewMnemonic_callback_def empty_wallets_def)
next
  case ImportMnemonic
  with assms show ?thesis
    by (simp add: importMnemonic_def Let_def empty_wallets_def)
next
  case GenerateSolanaWallet
  with assms show ?thesis
    by (simp add: generateSolanaWallet_ethereum generateSolanaWallet_mnemonic)
next
  case GenerateEthereumWallet
  with assms show ?thesis
    by (auto simp add: ethereum_generateEthereumWallet generateEthereumWallet_mnemonic
        derived_at_new split: sum.split)
next
  case (RemoveWallet c i)
  with assms show ?thesis
    by (cases c) (auto simp add: ethereum_removeWallet removeWallet_Solana_ethereum
        removeWallet_mnemonic dest: in_set_takeD in_set_dropD)
next
  case Clear
  with assms show ?thesis
    by (simp add: clear_def empty_wallets_def)
qed (use assms in \<open>simp_all add: generateNewMnemonic_click_def\<close>)

lemma paths_reachable:
  "(\<forall>r\<in>set (solana (wallets (run ext evs initial_state))).
      derived_at (solana_keys ext (mnemonic (run ext evs initial_state))) solana_derivationPath r)
   \<and> (\<forall>r\<in>set (ethereum (wallets (run ext evs initial_state))).
      derived_at (ethereum_keys ext (mnemonic (run ext evs initial_state)))
        ethereum_derivationPath r)"
proof (induction evs rule: rev_induct)
  case Nil
  show ?case by (simp add: run_Nil initial_state_def)
next
  case (snoc e evs)
  then show ?case
    unfolding run_snoc using solana_paths_step ethereum_paths_step by blast
qed

lemma solana_record_form:
  assumes "derived_at (solana_keys ext mn) solana_derivationPath r"
  shows "derivationPath r =
        ''m/44'/501'/'' @ show_nat (index r) @ [apostrophe] @ ''/0'' @ [apostrophe]
      \<and> solana_keys ext mn (derivationPath r) = Inr (address r, privateKey r)"
proof -
  from assms have p: "derivationPath r = solana_derivationPath (index r)"
    and k: "solana_keys ext mn (solana_derivationPath (index r)) = Inr (address r, privateKey r)"
    by (simp_all add: derived_at_def)
  have "solana_derivationPath (index r) =
      ''m/44'/501'/'' @ show_nat (index r) @ [apostrophe] @ ''/0'' @ [apostrophe]"
    by (simp add: solana_derivationPath_def DERIVATION_PATHS_SOLANA_def apostrophe_def)
  with p k show ?thesis by simp
qed

lemma ethereum_record_form:
  assumes "derived_at (ethereum_keys ext mn) ethereum_derivationPath r"
  shows "derivationPath r = ''m/44'/60'/'' @ show_nat (index r)
      \<and> ethereum_keys ext mn (derivationPath r) = Inr (address r, privateKey r)"
proof -
  from assms have p: "derivationPath r = ethereum_derivationPath (index r)"
    and k: "ethereum_keys ext mn (ethereum_derivationPath (index r))
        = Inr (address r, privateKey r)"
    by (simp_all add: derived_at_def)
  have "ethereum_derivationPath (index r) = ''m/44'/60'/'' @ show_nat (index r)"
    by (simp add: ethereum_derivationPath_def DERIVATION_PATHS_ETHEREUM_def apostrophe_def)
  with p k show ?thesis by simp
qed

lemma first_ethereum_wallet:
  assumes "trim M \<noteq> []" and "bip39_validateMnemonic ext (trim M)"
    and "ethereum_keys ext (trim M) ''m/44'/60'/0'' = Inr (a, k)"
  shows "ethereum (wallets (run ext (import_events M @ [GenerateEthereumWallet]) s0)) =
      [\<lparr>address = a, privateKey = k, derivationPath = ''m/44'/60'/0'', index = 0\<rparr>]"
proof -
  have k0: "ethereum_keys ext (trim M) (ethereum_derivationPath 0) = Inr (a, k)"
    unfolding ethereum_derivationPath_0 by (rule assms(3))
  have "ethereum (wallets (run ext (import_events M @ [GenerateEthereumWallet]) s0)) =
      [\<lparr>address = a, privateKey = k, derivationPath = ethereum_derivationPath 0, index = 0\<rparr>]"
    using assms(1,2) k0
    by (simp add: run_append run_Cons run_Nil ethereum_generateEthereumWallet after_import)
  then show ?thesis
    by (simp only: ethereum_derivationPath_0)
qed

lemma demo_first_wallets:
  "solana (wallets (run demo_externals
      (import_events demo_mnemonic @ [GenerateSolanaWallet, GenerateEthereumWallet]) initial_state)) =
     [\<lparr>address = solana_derivationPath 0,
       privateKey = toString_hex (map (\<lambda>c. of_nat (of_char c)) (solana_derivationPath 0)),
       derivationPath = solana_derivationPath 0, index = 0\<rparr>]"
  "ethereum (wallets (run demo_externals
      (import_events demo_mnemonic @ [GenerateSolanaWallet, GenerateEthereumWallet]) initial_state)) =
     [\<lparr>address = ''addr:0x'' @ ethereum_derivationPath 0,
       privateKey = ''0x'' @ ethereum_derivationPath 0,
       derivationPath = ethereum_derivationPath 0, index = 0\<rparr>]"
  "mnemonic (run demo_externals
      (import_events demo_mnemonic @ [GenerateSolanaWallet, GenerateEthereumWallet]) initial_state) =
     demo_mnemonic"
  by (simp_all add: session_simps trim_demo_mnemonic demo_validate demo_mnemonic_nonempty
      demo_solana_keys demo_ethereum_keys initial_state_def)

text \<open>
  Claim C4, as amended. In every state a session reaches from the initial state, each
  Solana record has the path \<open>m/44'/501'/i'/0'\<close> and each Ethereum record the path
  \<open>m/44'/60'/i\<close>, where \<open>i\<close> is the decimal rendering of the record's own index field:
  coin type 501 and 60, the index in the fourth segment, hardened and followed by the
  hardened segment \<open>0'\<close> for Solana, not hardened and last for Ethereum. The record's
  address and private key are the library's result for the current mnemonic at exactly
  that path. In particular the first Ethereum wallet after a valid import has index 0,
  the path \<open>m/44'/60'/0\<close>, and the key the library derives at \<open>m/44'/60'/0\<close>.
\<close>

theorem derivationPath_form:
  "(\<forall>r\<in>set (solana (wallets (run ext evs initial_state))).
      derivationPath r = ''m/44'/501'/'' @ show_nat (index r) @ [apostrophe] @ ''/0'' @ [apostrophe]
      \<and> solana_keys ext (mnemonic (run ext evs initial_state)) (derivationPath r)
          = Inr (address r, privateKey r))
   \<and> (\<forall>r\<in>set (ethereum (wallets (run ext evs initial_state))).
      derivationPath r = ''m/44'/60'/'' @ show_nat (index r)
      \<and> ethereum_keys ext (mnemonic (run ext evs initial_state)) (derivationPath r)
          = Inr (address r, privateKey r))
   \<and> (trim M \<noteq> [] \<and> bip39_validateMnemonic ext (trim M)
        \<and> ethereum_keys ext (trim M) ''m/44'/60'/0'' = Inr (a, k)
      \<longrightarrow> ethereum (wallets (run ext (import_events M @ [GenerateEthereumWallet]) s0)) =
            [\<lparr>address = a, privateKey = k, derivationPath = ''m/44'/60'/0'', index = 0\<rparr>])"
proof (intro conjI impI)
  show "\<forall>r\<in>set (solana (wallets (run ext evs initial_state))).
      derivationPath r = ''m/44'/501'/'' @ show_nat (index r) @ [apostrophe] @ ''/0'' @ [apostrophe]
      \<and> solana_keys ext (mnemonic (run ext evs initial_state)) (derivationPath r)
          = Inr (address r, privateKey r)"
    using paths_reachable [of ext evs] solana_record_form by blast
  show "\<forall>r\<in>set (ethereum (wallets (run ext evs initial_state))).
      derivationPath r = ''m/44'/60'/'' @ show_nat (index r)
      \<and> ethereum_keys ext (mnemonic (run ext evs initial_state)) (derivationPath r)
          = Inr (address r, privateKey r)"
    using paths_reachable [of ext evs] ethereum_record_form by blast
  show "ethereum (wallets (run ext (import_events M @ [GenerateEthereumWallet]) s0)) =
      [\<lparr>address = a, privateKey = k, derivationPath = ''m/44'/60'/0'', index = 0\<rparr>]"
    if "trim M \<noteq> [] \<and> bip39_validateMnemonic ext (trim M)
        \<and> ethereum_keys ext (trim M) ''m/44'/60'/0'' = Inr (a, k)"
    using that first_ethereum_wallet [of M ext a k s0] by blast
qed

theorem derivationPath_form_witness:
  "map index (solana (wallets (run demo_externals
      (import_events demo_mnemonic @ [GenerateSolanaWallet, GenerateEthereumWallet])
      initial_state))) = [0]
   \<and> map derivationPath (solana (wallets (run demo_externals
      (import_events demo_mnemonic @ [GenerateSolanaWallet, GenerateEthereumWallet])
      initial_state))) = [''m/44'/501'/0'/0'' @ [apostrophe]]
   \<and> map address (solana (wallets (run demo_externals
      (import_events demo_mnemonic @ [GenerateSolanaWallet, GenerateEthereumWallet])
      initial_state))) = [''m/44'/501'/0'/0'' @ [apostrophe]]
   \<and> map index (ethereum (wallets (run demo_externals
      (import_events demo_mnemonic @ [GenerateSolanaWallet, GenerateEthereumWallet])
      initial_state))) = [0]
   \<and> map derivationPath (ethereum (wallets (run demo_externals
      (import_events demo_mnemonic @ [GenerateSolanaWallet, GenerateEthereumWallet])
      initial_state))) = [''m/44'/60'/0'']
   \<and> map address (ethereum (wallets (run demo_externals
      (import_events demo_mnemonic @ [GenerateSolanaWallet, GenerateEthereumWallet])
      initial_state))) = [''addr:0xm/44'/60'/0'']
   \<and> trim demo_mnemonic \<noteq> []
   \<and> bip39_validateMnemonic demo_externals (trim demo_mnemonic)
   \<and> ethereum_keys demo_externals (trim demo_mnemonic) ''m/44'/60'/0''
       = Inr (''addr:0xm/44'/60'/0'', ''0xm/44'/60'/0'')
   \<and> ethereum (wallets (run demo_externals
        (import_events demo_mnemonic @ [GenerateEthereumWallet]) initial_state))
       = [\<lparr>address = ''addr:0xm/44'/60'/0'', privateKey = ''0xm/44'/60'/0'',
           derivationPath = ''m/44'/60'/0'', index = 0\<rparr>]"
proof -
  have nonempty: "trim demo_mnemonic \<noteq> []"
    by (simp add: trim_demo_mnemonic demo_mnemonic_nonempty)
  have valid: "bip39_validateMnemonic demo_externals (trim demo_mnemonic)"
    by (simp add: trim_demo_mnemonic demo_validate)
  have key: "ethereum_keys demo_externals (trim demo_mnemonic) ''m/44'/60'/0''
      = Inr (''addr:0xm/44'/60'/0'', ''0xm/44'/60'/0'')"
    by (simp add: demo_ethereum_keys)
  have first: "ethereum (wallets (run demo_externals
        (import_events demo_mnemonic @ [GenerateEthereumWallet]) initial_state))
       = [\<lparr>address = ''addr:0xm/44'/60'/0'', privateKey = ''0xm/44'/60'/0'',
           derivationPath = ''m/44'/60'/0'', index = 0\<rparr>]"
    using nonempty valid key
      derivationPath_form [of demo_externals
        "import_events demo_mnemonic @ [GenerateSolanaWallet, GenerateEthereumWallet]"
        demo_mnemonic "''addr:0xm/44'/60'/0''" "''0xm/44'/60'/0''" initial_state]
    by blast
  have paths: "solana_derivationPath 0 = ''m/44'/501'/0'/0'' @ [apostrophe]"
    "ethereum_derivationPath 0 = ''m/44'/60'/0''"
    by (rule solana_derivationPath_0, rule ethereum_derivationPath_0)
  show ?thesis
    using nonempty valid key first
      derivationPath_form [of demo_externals
        "import_events demo_mnemonic @ [GenerateSolanaWallet, GenerateEthereumWallet]"
        demo_mnemonic "''addr:0xm/44'/60'/0''" "''0xm/44'/60'/0''" initial_state]
    by (simp add: demo_first_wallets paths)
qed

text \<open>
  The claim as stated gives every path a hardened account segment and derives the first
  Ethereum wallet's key at \<open>m/44'/60'/0'/0/0\<close>. The stand-in library's keys spell out
  the path they were derived at. The first Ethereum wallet of a session has the path
  \<open>m/44'/60'/0\<close>, whose index segment carries no hardening mark, and its address and
  private key are the library's result at \<open>m/44'/60'/0\<close>, not its result at
  \<open>m/44'/60'/0'/0/0\<close>.
\<close>

theorem first_ethereum_path_not_standard:
  "ethereum (wallets (run demo_externals
      (import_events demo_mnemonic @ [GenerateEthereumWallet]) initial_state))
     = [\<lparr>address = ''addr:0xm/44'/60'/0'', privateKey = ''0xm/44'/60'/0'',
         derivationPath = ''m/44'/60'/0'', index = 0\<rparr>]
   \<and> ethereum_keys demo_externals demo_mnemonic ''m/44'/60'/0''
     = Inr (''addr:0xm/44'/60'/0'', ''0xm/44'/60'/0'')
   \<and> ethereum_keys demo_externals demo_mnemonic ''m/44'/60'/0'/0/0''
     = Inr (''addr:0xm/44'/60'/0'/0/0'', ''0xm/44'/60'/0'/0/0'')
   \<and> ''addr:0xm/44'/60'/0'' \<noteq> ''addr:0xm/44'/60'/0'/0/0''
   \<and> ''0xm/44'/60'/0'' \<noteq> ''0xm/44'/60'/0'/0/0''
   \<and> ''m/44'/60'/0'' \<noteq> ''m/44'/60'/0'/0/0''
   \<and> ''m/44'/60'/0'' \<noteq> ''m/44'/60'/0'' @ [apostrophe]"
  by (simp add: session_simps trim_demo_mnemonic demo_validate demo_mnemonic_nonempty
      demo_ethereum_keys initial_state_def ethereum_derivationPath_0)

section \<open>Removing a wallet\<close>

lemma removeWallet_registry:
  "registry c (removeWallet c i s) = take i (registry c s) @ drop (Suc i) (registry c s)"
  by (cases c) (simp_all add: registry_def solana_removeWallet ethereum_removeWallet)

lemma removeWallet_out_of_range:
  "length (registry c s) \<le> i \<Longrightarrow> removeWallet c i s = s"
  by (cases c) (simp_all add: registry_def removeWallet_def filter_with_index_out_of_range)

lemma demo_three_registry:
  "solana (wallets (run demo_externals demo_three_solana initial_state)) =
     [\<lparr>address = solana_derivationPath 0,
       privateKey = toString_hex (map (\<lambda>c. of_nat (of_char c)) (solana_derivationPath 0)),
       derivationPath = solana_derivationPath 0, index = 0\<rparr>,
      \<lparr>address = solana_derivationPath 1,
       privateKey = toString_hex (map (\<lambda>c. of_nat (of_char c)) (solana_derivationPath 1)),
       derivationPath = solana_derivationPath 1, index = 1\<rparr>,
      \<lparr>address = solana_derivationPath 2,
       privateKey = toString_hex (map (\<lambda>c. of_nat (of_char c)) (solana_derivationPath 2)),
       derivationPath = solana_derivationPath 2, index = 2\<rparr>]"
  by (simp add: session_simps demo_three_solana_def trim_demo_mnemonic demo_validate
      demo_mnemonic_nonempty demo_solana_keys numeral_2_eq_2)

text \<open>
  Claim C5, as amended. \<^verbatim>\<open>removeWallet(chain, index)\<close> identifies the record by its
  position in the chain's list: the list afterwards is the list before without the
  element at that position. So at most one record goes, exactly one when the position
  is in range, and when it is out of range the whole state is unchanged.
\<close>

theorem removeWallet_by_position:
  "registry c (removeWallet c i s) = take i (registry c s) @ drop (Suc i) (registry c s)
   \<and> length (registry c s) - 1 \<le> length (registry c (removeWallet c i s))
   \<and> (i < length (registry c s) \<longrightarrow>
        length (registry c (removeWallet c i s)) = length (registry c s) - 1)
   \<and> (length (registry c s) \<le> i \<longrightarrow> removeWallet c i s = s)"
proof (intro conjI impI)
  show "registry c (removeWallet c i s) = take i (registry c s) @ drop (Suc i) (registry c s)"
    by (rule removeWallet_registry)
  show "length (registry c s) - 1 \<le> length (registry c (removeWallet c i s))"
    unfolding removeWallet_registry by simp
  show "length (registry c (removeWallet c i s)) = length (registry c s) - 1"
    if "i < length (registry c s)"
    unfolding removeWallet_registry using that by simp
  show "removeWallet c i s = s" if "length (registry c s) \<le> i"
    using that by (rule removeWallet_out_of_range)
qed

theorem removeWallet_by_position_witness:
  "map index (registry Solana (run demo_externals demo_three_solana initial_state)) = [0, 1, 2]
   \<and> map index (registry Solana
        (removeWallet Solana 1 (run demo_externals demo_three_solana initial_state))) = [0, 2]
   \<and> removeWallet Solana 3 (run demo_externals demo_three_solana initial_state)
       = run demo_externals demo_three_solana initial_state"
  using removeWallet_by_position [of Solana 1 "run demo_externals demo_three_solana initial_state"]
    removeWallet_by_position [of Solana 3 "run demo_externals demo_three_solana initial_state"]
  by (simp add: registry_def demo_three_registry)

text \<open>
  The claim as stated makes the record's address the identity. Two sessions of the demo
  reach lists that hold the same two wallets in opposite order; the same call
  \<^verbatim>\<open>removeWallet('solana', 0)\<close> removes the one wallet from the first and the other
  wallet from the second, and the two addresses differ. Which record goes is decided by
  the position.
\<close>

theorem removeWallet_identity_is_position:
  "map address (solana (wallets (run demo_externals
      (demo_three_solana @ [RemoveWallet Solana 0]) initial_state)))
     = [solana_derivationPath 1, solana_derivationPath 2]
   \<and> map address (solana (wallets (run demo_externals
      (demo_three_solana @ [RemoveWallet Solana 0, RemoveWallet Solana 0, GenerateSolanaWallet])
      initial_state)))
     = [solana_derivationPath 2, solana_derivationPath 1]
   \<and> map address (solana (wallets (run demo_externals
      (demo_three_solana @ [RemoveWallet Solana 0] @ [RemoveWallet Solana 0]) initial_state)))
     = [solana_derivationPath 2]
   \<and> map address (solana (wallets (run demo_externals
      (demo_three_solana @ [RemoveWallet Solana 0, RemoveWallet Solana 0, GenerateSolanaWallet]
        @ [RemoveWallet Solana 0]) initial_state)))
     = [solana_derivationPath 1]
   \<and> solana_derivationPath 1 \<noteq> solana_derivationPath 2"
proof -
  have "solana_derivationPath 1 \<noteq> solana_derivationPath 2"
    unfolding solana_derivationPath_1 solana_derivationPath_2 by simp
  then show ?thesis
    by (simp add: session_simps demo_three_solana_def trim_demo_mnemonic demo_validate
        demo_mnemonic_nonempty demo_solana_keys numeral_2_eq_2)
qed

section \<open>Indices and paths after a removal\<close>

text \<open>
  Claim C1, evaluated on the code. A valid phrase is imported, three Solana wallets are
  added (index 0, 1, 2), the card at position 1 (the record with index 1) is removed,
  and a fourth wallet is added. The claim has index 3 for it; the handler takes the
  length of the list, which the removal brought back to 2, so the new record has index
  2, as the last one before it.
\<close>

theorem index_after_removal_is_length:
  assumes "trim M \<noteq> []" and "bip39_validateMnemonic ext (trim M)"
    and "solana_keys ext (trim M) (solana_derivationPath 0) = Inr (a0, k0)"
    and "solana_keys ext (trim M) (solana_derivationPath 1) = Inr (a1, k1)"
    and "solana_keys ext (trim M) (solana_derivationPath 2) = Inr (a2, k2)"
  shows "map index (solana (wallets (run ext (import_events M @
            [GenerateSolanaWallet, GenerateSolanaWallet, GenerateSolanaWallet]) s0))) = [0, 1, 2]
    \<and> map index (solana (wallets (run ext (import_events M @
            [GenerateSolanaWallet, GenerateSolanaWallet, GenerateSolanaWallet,
             RemoveWallet Solana 1, GenerateSolanaWallet]) s0))) = [0, 2, 2]"
proof -
  have "map index (solana (wallets (run ext (import_events M @
            [GenerateSolanaWallet, GenerateSolanaWallet, GenerateSolanaWallet]) s0))) = [0, 1, 2]"
    using assms by (simp add: session_simps numeral_2_eq_2)
  then show ?thesis
    using solana_remove_then_derive [OF assms, of s0] by simp
qed

theorem index_after_removal_is_length_witness:
  "trim demo_mnemonic \<noteq> []
   \<and> bip39_validateMnemonic demo_externals (trim demo_mnemonic)
   \<and> map index (solana (wallets (run demo_externals (import_events demo_mnemonic @
          [GenerateSolanaWallet, GenerateSolanaWallet, GenerateSolanaWallet,
           RemoveWallet Solana 1, GenerateSolanaWallet]) initial_state))) = [0, 2, 2]"
proof -
  have nonempty: "trim demo_mnemonic \<noteq> []"
    by (simp add: trim_demo_mnemonic demo_mnemonic_nonempty)
  have valid: "bip39_validateMnemonic demo_externals (trim demo_mnemonic)"
    by (simp add: trim_demo_mnemonic demo_validate)
  show ?thesis
    using nonempty valid
      index_after_removal_is_length [OF nonempty valid
        demo_solana_keys demo_solana_keys demo_solana_keys, of initial_state]
    by simp
qed

text \<open>
  Claim C2, evaluated on the code. In the state the same session reaches, the Solana
  list holds two records with the same derivation path, and with the same address: the
  path of index 2 was used again while its record was still in the list.
\<close>

theorem derivation_path_reused_after_removal:
  assumes "trim M \<noteq> []" and "bip39_validateMnemonic ext (trim M)"
    and "solana_keys ext (trim M) (solana_derivationPath 0) = Inr (a0, k0)"
    and "solana_keys ext (trim M) (solana_derivationPath 1) = Inr (a1, k1)"
    and "solana_keys ext (trim M) (solana_derivationPath 2) = Inr (a2, k2)"
  shows "\<not> distinct (map derivationPath (solana (wallets (run ext (import_events M @
            [GenerateSolanaWallet, GenerateSolanaWallet, GenerateSolanaWallet,
             RemoveWallet Solana 1, GenerateSolanaWallet]) s0))))
    \<and> \<not> distinct (map address (solana (wallets (run ext (import_events M @
            [GenerateSolanaWallet, GenerateSolanaWallet, GenerateSolanaWallet,
             RemoveWallet Solana 1, GenerateSolanaWallet]) s0))))"
  using solana_remove_then_derive [OF assms, of s0] by simp

theorem derivation_path_reused_after_removal_witness:
  "trim demo_mnemonic \<noteq> []
   \<and> bip39_validateMnemonic demo_externals (trim demo_mnemonic)
   \<and> \<not> distinct (map derivationPath (solana (wallets (run demo_externals
          (import_events demo_mnemonic @
            [GenerateSolanaWallet, GenerateSolanaWallet, GenerateSolanaWallet,
             RemoveWallet Solana 1, GenerateSolanaWallet]) initial_state))))
   \<and> \<not> distinct (map address (solana (wallets (run demo_externals
          (import_events demo_mnemonic @
            [GenerateSolanaWallet, GenerateSolanaWallet, GenerateSolanaWallet,
             RemoveWallet Solana 1, GenerateSolanaWallet]) initial_state))))"
proof -
  have nonempty: "trim demo_mnemonic \<noteq> []"
    by (simp add: trim_demo_mnemonic demo_mnemonic_nonempty)
  have valid: "bip39_validateMnemonic demo_externals (trim demo_mnemonic)"
    by (simp add: trim_demo_mnemonic demo_validate)
  show ?thesis
    using nonempty valid
      derivation_path_reused_after_removal [OF nonempty valid
        demo_solana_keys demo_solana_keys demo_solana_keys, of initial_state]
    by simp
qed

end
